theory Spec2Isabelle
  imports Main
begin

section \<open>JavaScript values\<close>

text \<open>
  The client reads the parsed response body with plain property reads, truthiness tests,
  \<open>||\<close> defaults and template interpolation, and it copies remote values into its
  result without checking them. The values are therefore modelled as they are at run
  time: one datatype of JavaScript values, \<open>Undefined\<close> included. Numbers are the
  integers (the code observes of a number only whether it is zero and how it prints);
  an object is the list of its own properties in insertion order, each key once.
\<close>

datatype jsvalue =
    Undefined
  | Null
  | Bool bool
  | Num int
  | Str string
  | Arr "jsvalue list"
  | Obj "(string \<times> jsvalue) list"

text \<open>What a rejected promise or a throwing expression raises.\<close>

datatype exn =
    FetchRejected      \<comment> \<open>\<open>fetch\<close> rejects: network error, DNS failure, timeout\<close>
  | BodyUnreadable     \<comment> \<open>\<open>response.json()\<close> rejects: the body is not JSON\<close>
  | TypeError          \<comment> \<open>a property read on \<open>null\<close> or \<open>undefined\<close>, a failed conversion\<close>

text \<open>\<open>ToBoolean\<close>, as used by \<open>!\<close>, \<open>||\<close>, \<open>?:\<close> and \<open>if\<close>.\<close>

fun truthy :: "jsvalue \<Rightarrow> bool" where
  "truthy Undefined = False"
| "truthy Null = False"
| "truthy (Bool b) = b"
| "truthy (Num n) = (n \<noteq> 0)"
| "truthy (Str s) = (s \<noteq> [])"
| "truthy (Arr xs) = True"
| "truthy (Obj kv) = True"

text \<open>\<open>a || b\<close> on two values already computed.\<close>

definition js_or :: "jsvalue \<Rightarrow> jsvalue \<Rightarrow> jsvalue" where
  "js_or a b = (if truthy a then a else b)"

text \<open>Decimal rendering of array indices and of integers.\<close>

definition digit_char :: "nat \<Rightarrow> char" where
  "digit_char d = ''0123456789'' ! d"

fun decimal_of_nat :: "nat \<Rightarrow> string" where
  "decimal_of_nat n =
     (if n < 10 then [digit_char n]
      else decimal_of_nat (n div 10) @ [digit_char (n mod 10)])"

definition decimal_of_int :: "int \<Rightarrow> string" where
  "decimal_of_int i =
     (if i < 0 then CHR ''-'' # decimal_of_nat (nat (- i)) else decimal_of_nat (nat i))"

text \<open>
  The value of a property read \<open>v.k\<close> (or \<open>v[0]\<close>, whose key is \<open>''0''\<close>) on a value
  that is neither \<open>null\<close> nor \<open>undefined\<close>. An object answers with its own
  property; an array and a string have \<open>length\<close> and their index keys; a number and a
  boolean have neither. None of the names the client reads (\<open>result\<close>, \<open>length\<close>,
  \<open>0\<close>, \<open>id\<close>, \<open>status\<close>, \<open>ssl\<close>, \<open>method\<close>, \<open>validation_method\<close>,
  \<open>validation_errors\<close>, \<open>validation_records\<close>, \<open>verification_errors\<close>) is
  inherited from a built-in prototype.
\<close>

definition own_property :: "(string \<times> jsvalue) list \<Rightarrow> string \<Rightarrow> jsvalue" where
  "own_property kv k = (case map_of kv k of None \<Rightarrow> Undefined | Some v \<Rightarrow> v)"

fun prop_of :: "jsvalue \<Rightarrow> string \<Rightarrow> jsvalue" where
  "prop_of (Obj kv) k = own_property kv k"
| "prop_of (Arr xs) k =
     (if k = ''length'' then Num (int (length xs))
      else own_property (zip (map decimal_of_nat [0..<length xs]) xs) k)"
| "prop_of (Str s) k =
     (if k = ''length'' then Num (int (length s))
      else own_property (zip (map decimal_of_nat [0..<length s]) (map (\<lambda>c. Str [c]) s)) k)"
| "prop_of v k = Undefined"

text \<open>The property read itself: it throws on \<open>null\<close> and \<open>undefined\<close>.\<close>

definition get :: "jsvalue \<Rightarrow> string \<Rightarrow> exn + jsvalue" where
  "get v k = (if v = Undefined \<or> v = Null then Inl TypeError else Inr (prop_of v k))"

text \<open>Evaluation in sequence: an exception ends it.\<close>

definition and_then :: "exn + 'a \<Rightarrow> ('a \<Rightarrow> exn + 'b) \<Rightarrow> exn + 'b" where
  "and_then r f = (case r of Inl e \<Rightarrow> Inl e | Inr v \<Rightarrow> f v)"

text \<open>
  \<open>ToString\<close>, as applied by a template literal \<open>`${v}`\<close>. An array joins its
  elements with commas, \<open>null\<close> and \<open>undefined\<close> elements printing as nothing. An
  object prints as \<open>[object Object]\<close>, unless an own property shadows \<open>toString\<close>:
  a parsed value is never callable, and the conversion throws.
\<close>

fun join_strings :: "(exn + string) list \<Rightarrow> exn + string" where
  "join_strings [] = Inr []"
| "join_strings [r] = r"
| "join_strings (r # rs) =
     (case r of Inl e \<Rightarrow> Inl e
      | Inr a \<Rightarrow> (case join_strings rs of Inl e \<Rightarrow> Inl e
                 | Inr b \<Rightarrow> Inr (a @ '','' @ b)))"

fun to_string :: "jsvalue \<Rightarrow> exn + string" where
  "to_string Undefined = Inr ''undefined''"
| "to_string Null = Inr ''null''"
| "to_string (Bool b) = Inr (if b then ''true'' else ''false'')"
| "to_string (Num n) = Inr (decimal_of_int n)"
| "to_string (Str s) = Inr s"
| "to_string (Arr xs) =
     join_strings (map (\<lambda>x. if x = Undefined \<or> x = Null then Inr [] else to_string x) xs)"
| "to_string (Obj kv) =
     (if ''toString'' \<in> fst ` set kv then Inl TypeError else Inr ''[object Object]'')"

section \<open>Configuration, requests and the transport\<close>

text \<open>
  Modelled from the spec: the type \<open>Env\<close> is declared in \<open>./env\<close>, which is not among
  the sources. The specification describes the configuration as two secrets, a zone
  identifier and a bearer token, each a string that may be absent; \<open>None\<close> is the
  absent (\<open>undefined\<close>) binding.
\<close>

record Env =
  CLOUDFLARE_ZONE_ID :: "string option"
  DISPATCH_NAMESPACE_API_TOKEN :: "string option"

text \<open>Truthiness and interpolation of such a binding.\<close>

definition present :: "string option \<Rightarrow> bool" where
  "present b = (case b of None \<Rightarrow> False | Some s \<Rightarrow> s \<noteq> [])"

definition interpolate :: "string option \<Rightarrow> string" where
  "interpolate b = (case b of None \<Rightarrow> ''undefined'' | Some s \<Rightarrow> s)"

datatype http_method = GET | POST | DELETE

text \<open>
  A call of \<open>fetch\<close>: the URL and the init object. A call that names no method is a
  \<open>GET\<close>. The body is kept as the value handed to \<open>JSON.stringify\<close>.
\<close>

record request =
  url :: string
  req_method :: http_method
  headers :: "(string \<times> string) list"
  body :: "jsvalue option"

text \<open>
  What the client reads of a response: \<open>response.ok\<close>, the flag of a successful HTTP
  status, and \<open>response.json()\<close>, which is \<open>None\<close> when the body does not parse.
\<close>

record response =
  ok :: bool
  json :: "jsvalue option"

datatype fetch_outcome = Rejected | Resolved response

text \<open>
  The transport is the environment of the client: it answers a request in a state of the
  outside world and yields the next state, so that two calls in a row may be answered
  differently. Every call settles, one way or the other. The network state carries the
  log of the calls made.
\<close>

type_synonym 'w transport = "request \<Rightarrow> 'w \<Rightarrow> fetch_outcome \<times> 'w"

record 'w net =
  world :: 'w
  calls :: "request list"

definition fetch :: "'w transport \<Rightarrow> request \<Rightarrow> 'w net \<Rightarrow> (exn + response) \<times> 'w net" where
  "fetch tr req s =
     (case tr req (world s) of
        (Rejected, w) \<Rightarrow> (Inl FetchRejected, \<lparr>world = w, calls = calls s @ [req]\<rparr>)
      | (Resolved r, w) \<Rightarrow> (Inr r, \<lparr>world = w, calls = calls s @ [req]\<rparr>))"

definition response_json :: "response \<Rightarrow> exn + jsvalue" where
  "response_json r = (case json r of None \<Rightarrow> Inl BodyUnreadable | Some v \<Rightarrow> Inr v)"

section \<open>The client\<close>

definition getAuthHeaders :: "Env \<Rightarrow> (string \<times> string) list" where
  "getAuthHeaders env =
     (if present (DISPATCH_NAMESPACE_API_TOKEN env)
      then [(''Authorization'', ''Bearer '' @ interpolate (DISPATCH_NAMESPACE_API_TOKEN env)),
            (''Content-Type'', ''application/json'')]
      else [])"

definition isApiConfigured :: "Env \<Rightarrow> bool" where
  "isApiConfigured env =
     (present (CLOUDFLARE_ZONE_ID env) \<and> present (DISPATCH_NAMESPACE_API_TOKEN env))"

definition collection_url :: "Env \<Rightarrow> string" where
  "collection_url env =
     ''https://api.cloudflare.com/client/v4/zones/'' @ interpolate (CLOUDFLARE_ZONE_ID env)
       @ ''/custom_hostnames''"

subsection \<open>createCustomHostname\<close>

definition ssl_policy :: jsvalue where
  "ssl_policy =
     Obj [(''method'', Str ''http''),
          (''type'', Str ''dv''),
          (''settings'', Obj [(''http2'', Str ''on''),
                              (''min_tls_version'', Str ''1.2''),
                              (''tls_1_3'', Str ''on'')])]"

definition create_request :: "Env \<Rightarrow> string \<Rightarrow> request" where
  "create_request env hostname =
     \<lparr>url = collection_url env,
      req_method = POST,
      headers = getAuthHeaders env,
      body = Some (Obj [(''hostname'', Str hostname), (''ssl'', ssl_policy)])\<rparr>"

text \<open>The \<open>try\<close> block; \<open>Inl\<close> is an exception on its way to the \<open>catch\<close>.\<close>

definition createCustomHostname_try ::
  "'w transport \<Rightarrow> Env \<Rightarrow> string \<Rightarrow> 'w net \<Rightarrow> (exn + bool) \<times> 'w net" where
  "createCustomHostname_try tr env hostname s =
     (case fetch tr (create_request env hostname) s of
        (Inl e, s1) \<Rightarrow> (Inl e, s1)
      | (Inr response, s1) \<Rightarrow> (Inr (ok response), s1))"

text \<open>
  The function: \<open>Inr\<close> is the value its promise resolves with, \<open>Inl\<close> an exception that
  reaches the caller.
\<close>

definition createCustomHostname ::
  "'w transport \<Rightarrow> Env \<Rightarrow> string \<Rightarrow> 'w net \<Rightarrow> (exn + bool) \<times> 'w net" where
  "createCustomHostname tr env hostname s =
     (if \<not> isApiConfigured env then (Inr False, s)
      else (case createCustomHostname_try tr env hostname s of
              (Inl error, s1) \<Rightarrow> (Inr False, s1)
            | (Inr v, s1) \<Rightarrow> (Inr v, s1)))"

subsection \<open>getCustomHostnameStatus\<close>

definition lookup_prefix :: "Env \<Rightarrow> string" where
  "lookup_prefix env = collection_url env @ ''?hostname=''"

definition lookup_request :: "Env \<Rightarrow> string \<Rightarrow> request" where
  "lookup_request env hostname =
     \<lparr>url = lookup_prefix env @ hostname,
      req_method = GET,
      headers = getAuthHeaders env,
      body = None\<rparr>"

definition status_error :: "string \<Rightarrow> jsvalue" where
  "status_error msg =
     Obj [(''status'', Str ''error''), (''verification_errors'', Arr [Str msg])]"

definition status_not_found :: jsvalue where
  "status_not_found = Obj [(''status'', Str ''not_found'')]"

text \<open>\<open>!r.result || r.result.length === 0\<close>, the second operand read only if needed.\<close>

definition no_result :: "jsvalue \<Rightarrow> exn + bool" where
  "no_result r =
     (case get r ''result'' of
        Inl e \<Rightarrow> Inl e
      | Inr rr \<Rightarrow>
          if \<not> truthy rr then Inr True
          else (case get rr ''length'' of
                  Inl e \<Rightarrow> Inl e
                | Inr len \<Rightarrow> Inr (len = Num 0)))"

text \<open>\<open>r.result[0]\<close>.\<close>

definition first_result :: "jsvalue \<Rightarrow> exn + jsvalue" where
  "first_result r =
     (case get r ''result'' of
        Inl e \<Rightarrow> Inl e
      | Inr rr \<Rightarrow> get rr ''0'')"

text \<open>The \<open>ssl\<close> entry of the returned object literal.\<close>

definition project_ssl :: "jsvalue \<Rightarrow> exn + jsvalue" where
  "project_ssl hostnameData =
     and_then (get hostnameData ''ssl'') (\<lambda>ssl.
       if truthy ssl then
         and_then (get ssl ''status'') (\<lambda>st.
         and_then (get ssl ''method'') (\<lambda>m.
         and_then (if truthy m then Inr m else get ssl ''validation_method'') (\<lambda>vm.
         and_then (get ssl ''validation_errors'') (\<lambda>ve.
         and_then (get ssl ''validation_records'') (\<lambda>vr.
           Inr (Obj [(''status'', st),
                     (''validation_method'', vm),
                     (''validation_errors'', js_or ve (Arr [])),
                     (''validation_records'', js_or vr (Arr []))]))))))
       else Inr Undefined)"

text \<open>The returned object literal, its entries evaluated in order.\<close>

definition project_record :: "jsvalue \<Rightarrow> exn + jsvalue" where
  "project_record hostnameData =
     and_then (get hostnameData ''status'') (\<lambda>st.
     and_then (project_ssl hostnameData) (\<lambda>ssl.
     and_then (get hostnameData ''verification_errors'') (\<lambda>ve.
       Inr (Obj [(''status'', st),
                 (''ssl'', ssl),
                 (''verification_errors'', js_or ve (Arr []))]))))"

definition getCustomHostnameStatus_try ::
  "'w transport \<Rightarrow> Env \<Rightarrow> string \<Rightarrow> 'w net \<Rightarrow> (exn + jsvalue) \<times> 'w net" where
  "getCustomHostnameStatus_try tr env hostname s =
     (case fetch tr (lookup_request env hostname) s of
        (Inl e, s1) \<Rightarrow> (Inl e, s1)
      | (Inr response, s1) \<Rightarrow>
          (case response_json response of
             Inl e \<Rightarrow> (Inl e, s1)
           | Inr result \<Rightarrow>
               if \<not> ok response then (Inr (status_error ''API request failed''), s1)
               else (case no_result result of
                       Inl e \<Rightarrow> (Inl e, s1)
                     | Inr True \<Rightarrow> (Inr status_not_found, s1)
                     | Inr False \<Rightarrow>
                         (case first_result result of
                            Inl e \<Rightarrow> (Inl e, s1)
                          | Inr hostnameData \<Rightarrow> (project_record hostnameData, s1)))))"

definition getCustomHostnameStatus ::
  "'w transport \<Rightarrow> Env \<Rightarrow> string \<Rightarrow> 'w net \<Rightarrow> (exn + jsvalue) \<times> 'w net" where
  "getCustomHostnameStatus tr env hostname s =
     (if \<not> isApiConfigured env then (Inr (status_error ''API not configured''), s)
      else (case getCustomHostnameStatus_try tr env hostname s of
              (Inl error, s1) \<Rightarrow> (Inr (status_error ''Network error''), s1)
            | (Inr v, s1) \<Rightarrow> (Inr v, s1)))"

subsection \<open>deleteCustomHostname\<close>

definition delete_request :: "Env \<Rightarrow> string \<Rightarrow> request" where
  "delete_request env hostnameId =
     \<lparr>url = collection_url env @ ''/'' @ hostnameId,
      req_method = DELETE,
      headers = getAuthHeaders env,
      body = None\<rparr>"

text \<open>
  \<open>!listResponse.ok || !listResult.result || listResult.result.length === 0\<close>: nothing
  of the body is read when the status is not a success.
\<close>

definition lookup_failed :: "response \<Rightarrow> jsvalue \<Rightarrow> exn + bool" where
  "lookup_failed listResponse listResult =
     (if \<not> ok listResponse then Inr True else no_result listResult)"

text \<open>\<open>listResult.result[0].id\<close>, as the text the template literal puts into the URL.\<close>

definition hostname_id :: "jsvalue \<Rightarrow> exn + string" where
  "hostname_id listResult =
     (case first_result listResult of
        Inl e \<Rightarrow> Inl e
      | Inr hostnameData \<Rightarrow>
          (case get hostnameData ''id'' of
             Inl e \<Rightarrow> Inl e
           | Inr hostnameId \<Rightarrow> to_string hostnameId))"

definition deleteCustomHostname_try ::
  "'w transport \<Rightarrow> Env \<Rightarrow> string \<Rightarrow> 'w net \<Rightarrow> (exn + bool) \<times> 'w net" where
  "deleteCustomHostname_try tr env hostname s =
     (case fetch tr (lookup_request env hostname) s of
        (Inl e, s1) \<Rightarrow> (Inl e, s1)
      | (Inr listResponse, s1) \<Rightarrow>
          (case response_json listResponse of
             Inl e \<Rightarrow> (Inl e, s1)
           | Inr listResult \<Rightarrow>
               (case lookup_failed listResponse listResult of
                  Inl e \<Rightarrow> (Inl e, s1)
                | Inr True \<Rightarrow> (Inr False, s1)
                | Inr False \<Rightarrow>
                    (case hostname_id listResult of
                       Inl e \<Rightarrow> (Inl e, s1)
                     | Inr hostnameId \<Rightarrow>
                         (case fetch tr (delete_request env hostnameId) s1 of
                            (Inl e, s2) \<Rightarrow> (Inl e, s2)
                          | (Inr deleteResponse, s2) \<Rightarrow> (Inr (ok deleteResponse), s2))))))"

definition deleteCustomHostname ::
  "'w transport \<Rightarrow> Env \<Rightarrow> string \<Rightarrow> 'w net \<Rightarrow> (exn + bool) \<times> 'w net" where
  "deleteCustomHostname tr env hostname s =
     (if \<not> isApiConfigured env then (Inr False, s)
      else (case deleteCustomHostname_try tr env hostname s of
              (Inl error, s1) \<Rightarrow> (Inr False, s1)
            | (Inr v, s1) \<Rightarrow> (Inr v, s1)))"

section \<open>The query of a URL\<close>

text \<open>
  The lookup puts the hostname into the query of its URL. To say what a URL asks for, two
  functions of the platform and of the URL standard are written out, over strings of
  bytes. \<open>encodeURIComponent\<close> is how a value is written into a query: the letters,
  the digits and \<open>- _ . ! ~ * ' ( )\<close> stand for themselves, every other byte becomes
  \<open>%\<close> and two hexadecimal digits. \<open>query_value\<close> is how the value of a parameter
  is read back from the text that follows its \<open>=\<close>: the value ends at the next
  \<open>&\<close>, where the next parameter starts, or at \<open>#\<close>, where the fragment starts,
  and its escapes are decoded.
\<close>

definition unreserved_chars :: string where
  "unreserved_chars =
     ''ABCDEFGHIJKLMNOPQRSTUVWXYZabcdefghijklmnopqrstuvwxyz0123456789-_.!~*'' @ [CHR 39] @ ''()''"

definition hex_chars :: string where
  "hex_chars = ''0123456789ABCDEF''"

definition percent_encode :: "char \<Rightarrow> string" where
  "percent_encode c =
     (if c \<in> set unreserved_chars then [c]
      else [CHR ''%'', hex_chars ! (of_char c div 16), hex_chars ! (of_char c mod 16)])"

definition encodeURIComponent :: "string \<Rightarrow> string" where
  "encodeURIComponent s = concat (map percent_encode s)"

definition hex_value :: "char \<Rightarrow> nat option" where
  "hex_value c =
     map_of (zip ''0123456789ABCDEF'' [0..<16] @ zip ''abcdef'' [10..<16]) c"

fun percent_decode :: "string \<Rightarrow> string" where
  "percent_decode (p # a # b # rest) =
     (if p = CHR ''%'' \<and> hex_value a \<noteq> None \<and> hex_value b \<noteq> None
      then char_of (16 * the (hex_value a) + the (hex_value b)) # percent_decode rest
      else p # percent_decode (a # b # rest))"
| "percent_decode s = s"

definition query_value :: "string \<Rightarrow> string" where
  "query_value q = percent_decode (takeWhile (\<lambda>c. c \<noteq> CHR ''&'' \<and> c \<noteq> CHR ''#'') q)"

section \<open>Inputs for the examples\<close>

text \<open>
  A configured environment, one that holds a token but no zone identifier, an idle
  network, and two transports over a world without state: one answers every request
  alike, the other answers a \<open>GET\<close> one way and every other method another way.
\<close>

definition env0 :: Env where
  "env0 = \<lparr>CLOUDFLARE_ZONE_ID = Some ''z1'', DISPATCH_NAMESPACE_API_TOKEN = Some ''t0k''\<rparr>"

definition token_only :: Env where
  "token_only = \<lparr>CLOUDFLARE_ZONE_ID = None, DISPATCH_NAMESPACE_API_TOKEN = Some ''t0k''\<rparr>"

definition s0 :: "unit net" where
  "s0 = \<lparr>world = (), calls = []\<rparr>"

definition answer_with :: "fetch_outcome \<Rightarrow> unit transport" where
  "answer_with out req w = (out, w)"

definition answer_by_method :: "fetch_outcome \<Rightarrow> fetch_outcome \<Rightarrow> unit transport" where
  "answer_by_method on_get on_other req w =
     (if req_method req = GET then on_get else on_other, w)"

text \<open>
  Whether an object has an own entry of a name (\<open>k in v\<close>), and the response bodies
  and results of the examples.
\<close>

definition has_key :: "jsvalue \<Rightarrow> string \<Rightarrow> bool" where
  "has_key v k = (case v of Obj kv \<Rightarrow> k \<in> fst ` set kv | _ \<Rightarrow> False)"

definition pending_body :: jsvalue where
  "pending_body =
     Obj [(''result'',
           Arr [Obj [(''id'', Str ''x''),
                     (''status'', Str ''pending''),
                     (''ssl'', Obj [(''status'', Str ''pending_validation''),
                                    (''method'', Str ''http'')])]])]"

definition stray_not_found_body :: jsvalue where
  "stray_not_found_body =
     Obj [(''result'',
           Arr [Obj [(''id'', Str ''x''),
                     (''status'', Str ''not_found''),
                     (''ssl'', Obj [(''status'', Str ''active'')])]])]"

definition null_record_body :: jsvalue where
  "null_record_body = Obj [(''result'', Arr [Null])]"

definition stray_not_found_status :: jsvalue where
  "stray_not_found_status =
     Obj [(''status'', Str ''not_found''),
          (''ssl'', Obj [(''status'', Str ''active''),
                         (''validation_method'', Undefined),
                         (''validation_errors'', Arr []),
                         (''validation_records'', Arr [])]),
          (''verification_errors'', Arr [])]"

definition two_records_body :: jsvalue where
  "two_records_body =
     Obj [(''result'',
           Arr [Obj [(''id'', Str ''a1''), (''status'', Str ''active'')],
                Obj [(''id'', Str ''b2''), (''status'', Str ''pending'')]])]"

section \<open>Auxiliary facts\<close>

text \<open>
  The equation of \<open>decimal_of_nat\<close> rewrites its own right-hand side, and the index keys
  of an array would be spelled out one by one: both stay out of the simplifier, which
  gets the reads the client makes instead.
\<close>

declare decimal_of_nat.simps [simp del]

declare prop_of.simps(2,3) [simp del]

lemma decimal_of_nat_0: "decimal_of_nat 0 = ''0''"
  by (simp add: decimal_of_nat.simps [of 0] digit_char_def)

lemma prop_of_Arr_length [simp]: "prop_of (Arr xs) ''length'' = Num (int (length xs))"
  by (simp add: prop_of.simps(2))

lemma prop_of_Arr_0 [simp]:
  "prop_of (Arr []) ''0'' = Undefined"
  "prop_of (Arr (x # xs)) ''0'' = x"
  by (simp_all add: prop_of.simps(2) own_property_def upt_conv_Cons decimal_of_nat_0
        del: upt_Suc)

lemma fetch_eq:
  "fetch tr req s =
     (case fst (tr req (world s)) of Rejected \<Rightarrow> Inl FetchRejected | Resolved r \<Rightarrow> Inr r,
      \<lparr>world = snd (tr req (world s)), calls = calls s @ [req]\<rparr>)"
  by (simp add: fetch_def split: prod.splits fetch_outcome.splits)

lemma isApiConfigured_iff:
  "isApiConfigured env \<longleftrightarrow>
     (\<exists>z t. CLOUDFLARE_ZONE_ID env = Some z \<and> z \<noteq> [] \<and>
            DISPATCH_NAMESPACE_API_TOKEN env = Some t \<and> t \<noteq> [])"
  by (auto simp: isApiConfigured_def present_def split: option.splits)

lemma truthy_defined: "truthy v \<Longrightarrow> v \<noteq> Undefined \<and> v \<noteq> Null"
  by (cases v) simp_all

lemma get_defined: "v \<noteq> Undefined \<Longrightarrow> v \<noteq> Null \<Longrightarrow> get v k = Inr (prop_of v k)"
  by (simp add: get_def)

lemma get_throws: "v = Undefined \<or> v = Null \<Longrightarrow> get v k = Inl TypeError"
  by (auto simp: get_def)

lemma no_result_eq:
  "no_result v =
     (if v = Undefined \<or> v = Null then Inl TypeError
      else Inr (\<not> truthy (prop_of v ''result'') \<or>
                prop_of (prop_of v ''result'') ''length'' = Num 0))"
  using truthy_defined [of "prop_of v ''result''"]
  by (auto simp: no_result_def get_def)

lemma first_result_eq:
  "v \<noteq> Undefined \<Longrightarrow> v \<noteq> Null \<Longrightarrow> truthy (prop_of v ''result'') \<Longrightarrow>
   first_result v = Inr (prop_of (prop_of v ''result'') ''0'')"
  using truthy_defined [of "prop_of v ''result''"]
  by (simp add: first_result_def get_def)

lemma project_ssl_eq:
  "d \<noteq> Undefined \<Longrightarrow> d \<noteq> Null \<Longrightarrow>
   project_ssl d =
     Inr (if truthy (prop_of d ''ssl'') then
            Obj [(''status'', prop_of (prop_of d ''ssl'') ''status''),
                 (''validation_method'',
                    js_or (prop_of (prop_of d ''ssl'') ''method'')
                          (prop_of (prop_of d ''ssl'') ''validation_method'')),
                 (''validation_errors'',
                    js_or (prop_of (prop_of d ''ssl'') ''validation_errors'') (Arr [])),
                 (''validation_records'',
                    js_or (prop_of (prop_of d ''ssl'') ''validation_records'') (Arr []))]
          else Undefined)"
  using truthy_defined [of "prop_of d ''ssl''"]
  by (simp add: project_ssl_def and_then_def get_def js_or_def)

lemma project_record_eq:
  "project_record d =
     (if d = Undefined \<or> d = Null then Inl TypeError
      else Inr (Obj [(''status'', prop_of d ''status''),
                     (''ssl'',
                        if truthy (prop_of d ''ssl'') then
                          Obj [(''status'', prop_of (prop_of d ''ssl'') ''status''),
                               (''validation_method'',
                                  js_or (prop_of (prop_of d ''ssl'') ''method'')
                                        (prop_of (prop_of d ''ssl'') ''validation_method'')),
                               (''validation_errors'',
                                  js_or (prop_of (prop_of d ''ssl'') ''validation_errors'') (Arr [])),
                               (''validation_records'',
                                  js_or (prop_of (prop_of d ''ssl'') ''validation_records'') (Arr []))]
                        else Undefined),
                     (''verification_errors'',
                        js_or (prop_of d ''verification_errors'') (Arr []))]))"
proof (cases "d = Undefined \<or> d = Null")
  case True
  then show ?thesis
    by (auto simp: project_record_def and_then_def get_def)
next
  case False
  then have "d \<noteq> Undefined" "d \<noteq> Null" by simp_all
  then show ?thesis
    by (simp add: project_record_def and_then_def get_defined project_ssl_eq)
qed

lemma getCustomHostnameStatus_calls:
  "isApiConfigured env \<Longrightarrow>
   snd (getCustomHostnameStatus tr env hostname s) =
     \<lparr>world = snd (tr (lookup_request env hostname) (world s)),
      calls = calls s @ [lookup_request env hostname]\<rparr>"
  by (simp add: getCustomHostnameStatus_def getCustomHostnameStatus_try_def fetch_eq
           split: fetch_outcome.splits sum.splits bool.splits prod.splits)

lemma getCustomHostnameStatus_rejected:
  "isApiConfigured env \<Longrightarrow> fst (tr (lookup_request env hostname) (world s)) = Rejected \<Longrightarrow>
   fst (getCustomHostnameStatus tr env hostname s) = Inr (status_error ''Network error'')"
  by (simp add: getCustomHostnameStatus_def getCustomHostnameStatus_try_def fetch_eq)

lemma getCustomHostnameStatus_unreadable:
  "isApiConfigured env \<Longrightarrow> fst (tr (lookup_request env hostname) (world s)) = Resolved r \<Longrightarrow>
   json r = None \<Longrightarrow>
   fst (getCustomHostnameStatus tr env hostname s) = Inr (status_error ''Network error'')"
  by (simp add: getCustomHostnameStatus_def getCustomHostnameStatus_try_def fetch_eq
        response_json_def)

lemma getCustomHostnameStatus_not_ok:
  "isApiConfigured env \<Longrightarrow> fst (tr (lookup_request env hostname) (world s)) = Resolved r \<Longrightarrow>
   json r = Some v \<Longrightarrow> \<not> ok r \<Longrightarrow>
   fst (getCustomHostnameStatus tr env hostname s) = Inr (status_error ''API request failed'')"
  by (simp add: getCustomHostnameStatus_def getCustomHostnameStatus_try_def fetch_eq
        response_json_def)

lemma getCustomHostnameStatus_ok:
  "isApiConfigured env \<Longrightarrow> fst (tr (lookup_request env hostname) (world s)) = Resolved r \<Longrightarrow>
   json r = Some v \<Longrightarrow> ok r \<Longrightarrow>
   fst (getCustomHostnameStatus tr env hostname s) =
     (if v = Undefined \<or> v = Null then Inr (status_error ''Network error'')
      else if \<not> truthy (prop_of v ''result'') \<or>
              prop_of (prop_of v ''result'') ''length'' = Num 0 then Inr status_not_found
      else if prop_of (prop_of v ''result'') ''0'' = Undefined \<or>
              prop_of (prop_of v ''result'') ''0'' = Null
        then Inr (status_error ''Network error'')
      else project_record (prop_of (prop_of v ''result'') ''0''))"
  by (auto simp: getCustomHostnameStatus_def getCustomHostnameStatus_try_def fetch_eq
        response_json_def no_result_eq first_result_eq project_record_eq)

lemma deleteCustomHostname_eq:
  "isApiConfigured env \<Longrightarrow>
   deleteCustomHostname tr env hostname s =
     (case fst (tr (lookup_request env hostname) (world s)) of
        Rejected \<Rightarrow>
          (Inr False, \<lparr>world = snd (tr (lookup_request env hostname) (world s)),
                       calls = calls s @ [lookup_request env hostname]\<rparr>)
      | Resolved r \<Rightarrow>
          (case json r of
             None \<Rightarrow>
               (Inr False, \<lparr>world = snd (tr (lookup_request env hostname) (world s)),
                            calls = calls s @ [lookup_request env hostname]\<rparr>)
           | Some v \<Rightarrow>
               if \<not> ok r \<or> v = Undefined \<or> v = Null \<or> \<not> truthy (prop_of v ''result'') \<or>
                  prop_of (prop_of v ''result'') ''length'' = Num 0
               then (Inr False, \<lparr>world = snd (tr (lookup_request env hostname) (world s)),
                                 calls = calls s @ [lookup_request env hostname]\<rparr>)
               else (case hostname_id v of
                       Inl e \<Rightarrow>
                         (Inr False,
                          \<lparr>world = snd (tr (lookup_request env hostname) (world s)),
                           calls = calls s @ [lookup_request env hostname]\<rparr>)
                     | Inr i \<Rightarrow>
                         (case fst (tr (delete_request env i)
                                      (snd (tr (lookup_request env hostname) (world s)))) of
                            Rejected \<Rightarrow> Inr False
                          | Resolved r2 \<Rightarrow> Inr (ok r2),
                          \<lparr>world = snd (tr (delete_request env i)
                                          (snd (tr (lookup_request env hostname) (world s)))),
                           calls = calls s @ [lookup_request env hostname,
                                             delete_request env i]\<rparr>))))"
  by (simp add: deleteCustomHostname_def deleteCustomHostname_try_def fetch_eq
        response_json_def lookup_failed_def no_result_eq
      split: fetch_outcome.splits option.splits sum.splits)

lemma hostname_id_of_record:
  "map_of members ''result'' = Some (Arr (Obj d # others)) \<Longrightarrow>
   map_of d ''id'' = Some (Str ident) \<Longrightarrow>
   hostname_id (Obj members) = Inr ident"
  by (simp add: hostname_id_def first_result_def get_def own_property_def)

lemmas example_inputs =
  env0_def s0_def answer_with_def isApiConfigured_def present_def lookup_request_def

lemmas delete_evaluation =
  deleteCustomHostname_def deleteCustomHostname_try_def fetch_def response_json_def
  lookup_failed_def no_result_def hostname_id_def first_result_def get_def own_property_def
  delete_request_def

lemma createCustomHostname_configured:
  "isApiConfigured env \<Longrightarrow>
   createCustomHostname tr env hostname s =
     (case fst (tr (create_request env hostname) (world s)) of
        Rejected \<Rightarrow> Inr False | Resolved r \<Rightarrow> Inr (ok r),
      \<lparr>world = snd (tr (create_request env hostname) (world s)),
        calls = calls s @ [create_request env hostname]\<rparr>)"
  by (simp add: createCustomHostname_def createCustomHostname_try_def fetch_eq
           split: fetch_outcome.splits)

lemma metacharacters_not_unreserved:
  "CHR ''&'' \<notin> set unreserved_chars" "CHR ''#'' \<notin> set unreserved_chars"
  by (simp_all add: unreserved_chars_def)

lemma metacharacters_not_hex:
  "CHR ''&'' \<notin> set hex_chars" "CHR ''#'' \<notin> set hex_chars"
  by (simp_all add: hex_chars_def)

lemma hex_chars_nth: "n < 16 \<Longrightarrow> hex_chars ! n \<in> set hex_chars"
  by (rule nth_mem) (simp add: hex_chars_def)

lemma percent_encode_chars:
  "c \<in> set (percent_encode x) \<Longrightarrow>
   c \<in> set unreserved_chars \<or> c = CHR ''%'' \<or> c \<in> set hex_chars"
proof -
  assume c: "c \<in> set (percent_encode x)"
  have "(of_char x :: nat) < 256"
    by simp
  then have "(of_char x :: nat) div 16 < 16"
    by (simp add: less_mult_imp_div_less)
  then have hi: "hex_chars ! (of_char x div 16) \<in> set hex_chars"
    by (rule hex_chars_nth)
  have lo: "hex_chars ! (of_char x mod 16) \<in> set hex_chars"
    by (rule hex_chars_nth) simp
  from c hi lo show ?thesis
    by (auto simp: percent_encode_def split: if_splits)
qed

lemma percent_encode_plain:
  "c \<in> set (percent_encode x) \<Longrightarrow> c \<noteq> CHR ''&'' \<and> c \<noteq> CHR ''#''"
  using percent_encode_chars [of c x] metacharacters_not_unreserved metacharacters_not_hex
  by auto

lemma encodeURIComponent_plain:
  "c \<in> set (encodeURIComponent s) \<Longrightarrow> c \<noteq> CHR ''&'' \<and> c \<noteq> CHR ''#''"
  by (auto simp: encodeURIComponent_def dest: percent_encode_plain)

lemma length_percent_decode: "length (percent_decode s) \<le> length s"
  by (induction s rule: percent_decode.induct) auto

lemma takeWhile_stops_short:
  "x \<in> set xs \<Longrightarrow> \<not> P x \<Longrightarrow> length (takeWhile P xs) < length xs"
  by (induction xs) auto

lemma query_value_shorter:
  assumes "CHR ''&'' \<in> set h \<or> CHR ''#'' \<in> set h"
  shows "length (query_value h) < length h"
proof -
  from assms obtain x where "x \<in> set h" and "\<not> (x \<noteq> CHR ''&'' \<and> x \<noteq> CHR ''#'')"
    by auto
  then have "length (takeWhile (\<lambda>c. c \<noteq> CHR ''&'' \<and> c \<noteq> CHR ''#'') h) < length h"
    by (rule takeWhile_stops_short)
  with length_percent_decode [of "takeWhile (\<lambda>c. c \<noteq> CHR ''&'' \<and> c \<noteq> CHR ''#'') h"]
  show ?thesis by (simp add: query_value_def)
qed

lemma deleteCustomHostname_first_call:
  "isApiConfigured env \<Longrightarrow>
   \<exists>rest. calls (snd (deleteCustomHostname tr env hostname s)) =
           calls s @ lookup_request env hostname # rest"
  by (simp add: deleteCustomHostname_eq
      split: fetch_outcome.splits option.splits sum.splits)

section \<open>The claims\<close>

text \<open>
  C1. Whatever the configuration, the hostname and the transport do, each operation
  returns a value and no exception reaches the caller. In a configured client an
  exception of any kind raised anywhere in the \<open>try\<close> block becomes the failure value
  of the operation: \<open>false\<close> for creation and deletion, the \<open>Network error\<close> result
  for the status lookup. So it is with a rejected call, with a lookup body that does not
  parse, and with a rejected \<open>DELETE\<close>.
\<close>

theorem operations_never_throw:
  "(\<exists>b. fst (createCustomHostname tr env hostname s) = Inr b) \<and>
   (\<exists>v. fst (getCustomHostnameStatus tr env hostname s) = Inr v) \<and>
   (\<exists>b. fst (deleteCustomHostname tr env hostname s) = Inr b) \<and>
   (isApiConfigured env \<longrightarrow>
      (\<forall>e. fst (createCustomHostname_try tr env hostname s) = Inl e \<longrightarrow>
           fst (createCustomHostname tr env hostname s) = Inr False) \<and>
      (\<forall>e. fst (getCustomHostnameStatus_try tr env hostname s) = Inl e \<longrightarrow>
           fst (getCustomHostnameStatus tr env hostname s) =
             Inr (Obj [(''status'', Str ''error''),
                       (''verification_errors'', Arr [Str ''Network error''])])) \<and>
      (\<forall>e. fst (deleteCustomHostname_try tr env hostname s) = Inl e \<longrightarrow>
           fst (deleteCustomHostname tr env hostname s) = Inr False) \<and>
      (fst (tr (create_request env hostname) (world s)) = Rejected \<longrightarrow>
         fst (createCustomHostname tr env hostname s) = Inr False) \<and>
      (fst (tr (lookup_request env hostname) (world s)) = Rejected \<or>
       (\<exists>r. fst (tr (lookup_request env hostname) (world s)) = Resolved r \<and> json r = None) \<longrightarrow>
         fst (getCustomHostnameStatus tr env hostname s) =
           Inr (Obj [(''status'', Str ''error''),
                     (''verification_errors'', Arr [Str ''Network error''])]) \<and>
         fst (deleteCustomHostname tr env hostname s) = Inr False) \<and>
      ((\<forall>i. fst (tr (delete_request env i)
                   (snd (tr (lookup_request env hostname) (world s)))) = Rejected) \<longrightarrow>
         fst (deleteCustomHostname tr env hostname s) = Inr False))"
proof (intro conjI impI allI)
  show "\<exists>b. fst (createCustomHostname tr env hostname s) = Inr b"
    by (auto simp: createCustomHostname_def split: prod.splits sum.splits)
  show "\<exists>v. fst (getCustomHostnameStatus tr env hostname s) = Inr v"
    by (auto simp: getCustomHostnameStatus_def split: prod.splits sum.splits)
  show "\<exists>b. fst (deleteCustomHostname tr env hostname s) = Inr b"
    by (auto simp: deleteCustomHostname_def split: prod.splits sum.splits)
next
  fix e
  assume "isApiConfigured env" "fst (createCustomHostname_try tr env hostname s) = Inl e"
  then show "fst (createCustomHostname tr env hostname s) = Inr False"
    by (cases "createCustomHostname_try tr env hostname s") (simp add: createCustomHostname_def)
next
  fix e
  assume "isApiConfigured env" "fst (getCustomHostnameStatus_try tr env hostname s) = Inl e"
  then show "fst (getCustomHostnameStatus tr env hostname s) =
               Inr (Obj [(''status'', Str ''error''),
                         (''verification_errors'', Arr [Str ''Network error''])])"
    by (cases "getCustomHostnameStatus_try tr env hostname s")
       (simp add: getCustomHostnameStatus_def status_error_def)
next
  fix e
  assume "isApiConfigured env" "fst (deleteCustomHostname_try tr env hostname s) = Inl e"
  then show "fst (deleteCustomHostname tr env hostname s) = Inr False"
    by (cases "deleteCustomHostname_try tr env hostname s") (simp add: deleteCustomHostname_def)
next
  assume "isApiConfigured env" "fst (tr (create_request env hostname) (world s)) = Rejected"
  then show "fst (createCustomHostname tr env hostname s) = Inr False"
    by (simp add: createCustomHostname_configured)
next
  assume c: "isApiConfigured env"
    and f: "fst (tr (lookup_request env hostname) (world s)) = Rejected \<or>
            (\<exists>r. fst (tr (lookup_request env hostname) (world s)) = Resolved r \<and> json r = None)"
  from c f show "fst (getCustomHostnameStatus tr env hostname s) =
               Inr (Obj [(''status'', Str ''error''),
                         (''verification_errors'', Arr [Str ''Network error''])])"
    by (auto simp: getCustomHostnameStatus_rejected getCustomHostnameStatus_unreadable
          status_error_def)
  from c f show "fst (deleteCustomHostname tr env hostname s) = Inr False"
    by (auto simp: deleteCustomHostname_eq)
next
  assume "isApiConfigured env"
    and "\<forall>i. fst (tr (delete_request env i)
                   (snd (tr (lookup_request env hostname) (world s)))) = Rejected"
  then show "fst (deleteCustomHostname tr env hostname s) = Inr False"
    by (simp add: deleteCustomHostname_eq
        split: fetch_outcome.splits option.splits sum.splits)
qed

theorem operations_never_throw_witness:
  "fst (createCustomHostname (answer_with Rejected) env0 ''a.example'' s0) = Inr False \<and>
   fst (getCustomHostnameStatus (answer_with Rejected) env0 ''a.example'' s0) =
     Inr (Obj [(''status'', Str ''error''), (''verification_errors'', Arr [Str ''Network error''])]) \<and>
   fst (deleteCustomHostname (answer_with Rejected) env0 ''a.example'' s0) = Inr False \<and>
   fst (getCustomHostnameStatus (answer_with (Resolved \<lparr>ok = True, json = None\<rparr>))
          env0 ''a.example'' s0) =
     Inr (Obj [(''status'', Str ''error''), (''verification_errors'', Arr [Str ''Network error''])]) \<and>
   fst (deleteCustomHostname (answer_with (Resolved \<lparr>ok = True, json = None\<rparr>))
          env0 ''a.example'' s0) = Inr False \<and>
   fst (deleteCustomHostname
          (answer_by_method (Resolved \<lparr>ok = True, json = Some pending_body\<rparr>) Rejected)
          env0 ''a.example'' s0) = Inr False"
  using operations_never_throw [of "answer_with Rejected" env0 "''a.example''" s0]
    operations_never_throw
      [of "answer_with (Resolved \<lparr>ok = True, json = None\<rparr>)" env0 "''a.example''" s0]
    operations_never_throw
      [of "answer_by_method (Resolved \<lparr>ok = True, json = Some pending_body\<rparr>) Rejected"
          env0 "''a.example''" s0]
  by (simp add: example_inputs answer_by_method_def create_request_def delete_request_def)

text \<open>
  C2. When the zone identifier or the token is empty or absent, each operation returns
  its unconfigured result and leaves the network state, the log of calls included, as it
  found it: \<open>false\<close> for creation and deletion, the \<open>API not configured\<close> error
  for the status lookup.
\<close>

theorem unconfigured_makes_no_call:
  assumes "CLOUDFLARE_ZONE_ID env = None \<or> CLOUDFLARE_ZONE_ID env = Some [] \<or>
           DISPATCH_NAMESPACE_API_TOKEN env = None \<or> DISPATCH_NAMESPACE_API_TOKEN env = Some []"
  shows "createCustomHostname tr env hostname s = (Inr False, s) \<and>
         getCustomHostnameStatus tr env hostname s =
           (Inr (Obj [(''status'', Str ''error''),
                      (''verification_errors'', Arr [Str ''API not configured''])]), s) \<and>
         deleteCustomHostname tr env hostname s = (Inr False, s)"
proof -
  from assms have "\<not> isApiConfigured env"
    by (auto simp: isApiConfigured_iff)
  then show ?thesis
    by (simp add: createCustomHostname_def getCustomHostnameStatus_def
          deleteCustomHostname_def status_error_def)
qed

theorem unconfigured_makes_no_call_witness:
  "createCustomHostname (answer_with (Resolved \<lparr>ok = True, json = None\<rparr>)) token_only ''a.example'' s0
     = (Inr False, s0) \<and>
   getCustomHostnameStatus (answer_with (Resolved \<lparr>ok = True, json = None\<rparr>)) token_only ''a.example'' s0
     = (Inr (Obj [(''status'', Str ''error''),
                  (''verification_errors'', Arr [Str ''API not configured''])]), s0) \<and>
   deleteCustomHostname (answer_with (Resolved \<lparr>ok = True, json = None\<rparr>)) token_only ''a.example'' s0
     = (Inr False, s0) \<and> calls s0 = []"
proof -
  have h: "CLOUDFLARE_ZONE_ID token_only = None \<or> CLOUDFLARE_ZONE_ID token_only = Some [] \<or>
           DISPATCH_NAMESPACE_API_TOKEN token_only = None \<or>
           DISPATCH_NAMESPACE_API_TOKEN token_only = Some []"
    by (simp add: token_only_def)
  show ?thesis
    using unconfigured_makes_no_call [OF h, of "answer_with (Resolved \<lparr>ok = True, json = None\<rparr>)" "''a.example''" s0]
    by (simp add: s0_def)
qed

text \<open>
  C3. A configured client makes one call, the \<open>POST\<close>, and returns \<open>true\<close> exactly
  when that call resolves with a successful status; it returns \<open>false\<close> when the call
  is rejected or resolves with another status, and when the client is not configured.
\<close>

theorem createCustomHostname_true_iff:
  "(isApiConfigured env \<longrightarrow>
      (fst (createCustomHostname tr env hostname s) = Inr True \<longleftrightarrow>
         (\<exists>r. fst (tr (create_request env hostname) (world s)) = Resolved r \<and> ok r)) \<and>
      (fst (createCustomHostname tr env hostname s) = Inr False \<longleftrightarrow>
         fst (tr (create_request env hostname) (world s)) = Rejected \<or>
         (\<exists>r. fst (tr (create_request env hostname) (world s)) = Resolved r \<and> \<not> ok r)) \<and>
      calls (snd (createCustomHostname tr env hostname s)) =
         calls s @ [create_request env hostname] \<and>
      req_method (create_request env hostname) = POST) \<and>
   (\<not> isApiConfigured env \<longrightarrow> fst (createCustomHostname tr env hostname s) = Inr False)"
proof (cases "isApiConfigured env")
  case True
  then show ?thesis
    by (cases "fst (tr (create_request env hostname) (world s))")
       (simp_all add: createCustomHostname_configured create_request_def)
next
  case False
  then show ?thesis by (simp add: createCustomHostname_def)
qed

theorem createCustomHostname_true_iff_witness:
  "isApiConfigured env0 \<and>
   fst (createCustomHostname (answer_with (Resolved \<lparr>ok = True, json = None\<rparr>)) env0 ''a.example'' s0) = Inr True \<and>
   fst (createCustomHostname (answer_with (Resolved \<lparr>ok = False, json = None\<rparr>)) env0 ''a.example'' s0) = Inr False \<and>
   fst (createCustomHostname (answer_with Rejected) env0 ''a.example'' s0) = Inr False \<and>
   fst (createCustomHostname (answer_with (Resolved \<lparr>ok = True, json = None\<rparr>)) token_only ''a.example'' s0) = Inr False"
  using createCustomHostname_true_iff [of env0 "answer_with (Resolved \<lparr>ok = True, json = None\<rparr>)" "''a.example''" s0]
    createCustomHostname_true_iff [of env0 "answer_with (Resolved \<lparr>ok = False, json = None\<rparr>)" "''a.example''" s0]
    createCustomHostname_true_iff [of env0 "answer_with Rejected" "''a.example''" s0]
    createCustomHostname_true_iff [of token_only "answer_with (Resolved \<lparr>ok = True, json = None\<rparr>)" "''a.example''" s0]
  by (simp add: isApiConfigured_def present_def env0_def token_only_def answer_with_def)

text \<open>
  C4, as amended. For a configured client: a lookup call that is rejected gives the
  \<open>Network error\<close> result; a response with a non-success status whose body parses
  gives \<open>API request failed\<close>. A success response gives \<open>Network error\<close> exactly
  when its body does not parse, or is \<open>null\<close>, or has a non-empty \<open>result\<close> whose
  first record is \<open>null\<close> or missing. \<open>Network error\<close> is never the result of a
  response with a non-success status whose body parses.
\<close>

theorem status_error_kinds:
  assumes "isApiConfigured env"
  shows "(fst (tr (lookup_request env hostname) (world s)) = Rejected \<longrightarrow>
            fst (getCustomHostnameStatus tr env hostname s) =
              Inr (Obj [(''status'', Str ''error''),
                        (''verification_errors'', Arr [Str ''Network error''])])) \<and>
         (\<forall>r v. fst (tr (lookup_request env hostname) (world s)) = Resolved r \<and>
                \<not> ok r \<and> json r = Some v \<longrightarrow>
            fst (getCustomHostnameStatus tr env hostname s) =
              Inr (Obj [(''status'', Str ''error''),
                        (''verification_errors'', Arr [Str ''API request failed''])])) \<and>
         (\<forall>r. fst (tr (lookup_request env hostname) (world s)) = Resolved r \<and> ok r \<longrightarrow>
            (fst (getCustomHostnameStatus tr env hostname s) =
               Inr (Obj [(''status'', Str ''error''),
                         (''verification_errors'', Arr [Str ''Network error''])]) \<longleftrightarrow>
             json r = None \<or> json r = Some Null \<or> json r = Some Undefined \<or>
             (\<exists>v. json r = Some v \<and> truthy (prop_of v ''result'') \<and>
                  prop_of (prop_of v ''result'') ''length'' \<noteq> Num 0 \<and>
                  (prop_of (prop_of v ''result'') ''0'' = Null \<or>
                   prop_of (prop_of v ''result'') ''0'' = Undefined)))) \<and>
         (fst (getCustomHostnameStatus tr env hostname s) =
              Inr (Obj [(''status'', Str ''error''),
                        (''verification_errors'', Arr [Str ''Network error''])]) \<longrightarrow>
            fst (tr (lookup_request env hostname) (world s)) = Rejected \<or>
            (\<exists>r. fst (tr (lookup_request env hostname) (world s)) = Resolved r \<and>
                 (json r = None \<or> ok r)))"
proof (cases "fst (tr (lookup_request env hostname) (world s))")
  case Rejected
  with assms show ?thesis
    by (simp add: getCustomHostnameStatus_rejected status_error_def)
next
  case (Resolved r)
  show ?thesis
  proof (cases "json r")
    case None
    with assms Resolved show ?thesis
      by (simp add: getCustomHostnameStatus_unreadable status_error_def)
  next
    case (Some v)
    show ?thesis
    proof (cases "ok r")
      case False
      with assms Resolved Some show ?thesis
        by (simp add: getCustomHostnameStatus_not_ok status_error_def)
    next
      case True
      have "fst (getCustomHostnameStatus tr env hostname s) = Inr (status_error ''Network error'')
            \<longleftrightarrow> v = Null \<or> v = Undefined \<or>
                truthy (prop_of v ''result'') \<and>
                prop_of (prop_of v ''result'') ''length'' \<noteq> Num 0 \<and>
                (prop_of (prop_of v ''result'') ''0'' = Null \<or>
                 prop_of (prop_of v ''result'') ''0'' = Undefined)"
        using assms Resolved Some True
        by (auto simp: getCustomHostnameStatus_ok project_record_eq status_error_def
              status_not_found_def split: if_splits)
      with assms Resolved Some True show ?thesis
        by (auto simp: status_error_def)
    qed
  qed
qed

theorem status_error_kinds_witness:
  "fst (getCustomHostnameStatus (answer_with Rejected) env0 ''a.example'' s0) =
     Inr (Obj [(''status'', Str ''error''), (''verification_errors'', Arr [Str ''Network error''])]) \<and>
   fst (getCustomHostnameStatus (answer_with (Resolved \<lparr>ok = False, json = Some Null\<rparr>))
          env0 ''a.example'' s0) =
     Inr (Obj [(''status'', Str ''error''),
               (''verification_errors'', Arr [Str ''API request failed''])]) \<and>
   fst (getCustomHostnameStatus (answer_with (Resolved \<lparr>ok = True, json = None\<rparr>))
          env0 ''a.example'' s0) =
     Inr (Obj [(''status'', Str ''error''), (''verification_errors'', Arr [Str ''Network error''])])"
  using status_error_kinds [of env0 "answer_with Rejected" "''a.example''" s0]
    status_error_kinds [of env0 "answer_with (Resolved \<lparr>ok = False, json = Some Null\<rparr>)"
      "''a.example''" s0]
    status_error_kinds [of env0 "answer_with (Resolved \<lparr>ok = True, json = None\<rparr>)"
      "''a.example''" s0]
  by (simp add: example_inputs)

text \<open>
  C4 as stated fails twice over, with no transport failure in either case: a non-success
  response whose body does not parse gives \<open>Network error\<close>, not
  \<open>API request failed\<close>, and so does a success response whose first record is
  \<open>null\<close>.
\<close>

theorem unparseable_failure_counterexample:
  "isApiConfigured env0 \<and>
   fst (answer_with (Resolved \<lparr>ok = False, json = None\<rparr>)
          (lookup_request env0 ''a.example'') (world s0)) \<noteq> Rejected \<and>
   fst (getCustomHostnameStatus (answer_with (Resolved \<lparr>ok = False, json = None\<rparr>))
          env0 ''a.example'' s0) =
     Inr (Obj [(''status'', Str ''error''), (''verification_errors'', Arr [Str ''Network error''])]) \<and>
   fst (answer_with (Resolved \<lparr>ok = True, json = Some null_record_body\<rparr>)
          (lookup_request env0 ''a.example'') (world s0)) \<noteq> Rejected \<and>
   fst (getCustomHostnameStatus (answer_with (Resolved \<lparr>ok = True, json = Some null_record_body\<rparr>))
          env0 ''a.example'' s0) =
     Inr (Obj [(''status'', Str ''error''), (''verification_errors'', Arr [Str ''Network error''])])"
  by (simp add: example_inputs null_record_body_def getCustomHostnameStatus_def
        getCustomHostnameStatus_try_def fetch_def response_json_def status_error_def
        no_result_def first_result_def project_record_def and_then_def get_def
        own_property_def prop_of_Arr_0)

text \<open>
  C5, as amended. For a configured client: when the lookup is rejected, has a non-success
  status, does not parse, or has an empty or missing \<open>result\<close> list, deletion returns
  \<open>false\<close> and the lookup is the only call made. When the lookup finds at least one
  record, a \<open>DELETE\<close> addressed by the first record's \<open>id\<close> follows, and the
  result is \<open>true\<close> exactly when that call resolves with a successful status.
  Deletion returns \<open>true\<close> in no other way: only after a success lookup with a
  non-empty result and a successful \<open>DELETE\<close> by the first record's identifier.
\<close>

theorem deleteCustomHostname_true_iff:
  assumes "isApiConfigured env"
  shows "(fst (tr (lookup_request env hostname) (world s)) = Rejected \<or>
          (\<exists>r. fst (tr (lookup_request env hostname) (world s)) = Resolved r \<and>
               (\<not> ok r \<or> json r = None \<or>
                (\<exists>members. json r = Some (Obj members) \<and>
                    (map_of members ''result'' = Some (Arr []) \<or>
                     map_of members ''result'' = None)))) \<longrightarrow>
            fst (deleteCustomHostname tr env hostname s) = Inr False \<and>
            calls (snd (deleteCustomHostname tr env hostname s)) =
              calls s @ [lookup_request env hostname]) \<and>
         (\<forall>r members d others ident.
            fst (tr (lookup_request env hostname) (world s)) = Resolved r \<and> ok r \<and>
            json r = Some (Obj members) \<and>
            map_of members ''result'' = Some (Arr (Obj d # others)) \<and>
            map_of d ''id'' = Some (Str ident) \<longrightarrow>
              (fst (deleteCustomHostname tr env hostname s) = Inr True \<longleftrightarrow>
                 (\<exists>r2. fst (tr (delete_request env ident)
                               (snd (tr (lookup_request env hostname) (world s)))) = Resolved r2 \<and>
                       ok r2)) \<and>
              (fst (deleteCustomHostname tr env hostname s) = Inr True \<or>
               fst (deleteCustomHostname tr env hostname s) = Inr False) \<and>
              calls (snd (deleteCustomHostname tr env hostname s)) =
                calls s @ [lookup_request env hostname, delete_request env ident] \<and>
              req_method (delete_request env ident) = DELETE) \<and>
         (fst (deleteCustomHostname tr env hostname s) = Inr True \<longrightarrow>
            (\<exists>r v i r2.
               fst (tr (lookup_request env hostname) (world s)) = Resolved r \<and> ok r \<and>
               json r = Some v \<and> truthy (prop_of v ''result'') \<and>
               prop_of (prop_of v ''result'') ''length'' \<noteq> Num 0 \<and>
               hostname_id v = Inr i \<and>
               fst (tr (delete_request env i)
                      (snd (tr (lookup_request env hostname) (world s)))) = Resolved r2 \<and>
               ok r2))"
proof (intro conjI impI allI)
  assume "fst (tr (lookup_request env hostname) (world s)) = Rejected \<or>
          (\<exists>r. fst (tr (lookup_request env hostname) (world s)) = Resolved r \<and>
               (\<not> ok r \<or> json r = None \<or>
                (\<exists>members. json r = Some (Obj members) \<and>
                    (map_of members ''result'' = Some (Arr []) \<or>
                     map_of members ''result'' = None))))"
  then have "deleteCustomHostname tr env hostname s =
               (Inr False, \<lparr>world = snd (tr (lookup_request env hostname) (world s)),
                            calls = calls s @ [lookup_request env hostname]\<rparr>)"
    by (auto simp: deleteCustomHostname_eq [OF assms] own_property_def split: option.splits)
  then show "fst (deleteCustomHostname tr env hostname s) = Inr False"
    and "calls (snd (deleteCustomHostname tr env hostname s)) =
           calls s @ [lookup_request env hostname]"
    by simp_all
next
  fix r members d others ident
  assume a: "fst (tr (lookup_request env hostname) (world s)) = Resolved r \<and> ok r \<and>
            json r = Some (Obj members) \<and>
            map_of members ''result'' = Some (Arr (Obj d # others)) \<and>
            map_of d ''id'' = Some (Str ident)"
  then have i: "hostname_id (Obj members) = Inr ident"
    by (simp add: hostname_id_of_record)
  from a have eq: "deleteCustomHostname tr env hostname s =
      (case fst (tr (delete_request env ident)
                   (snd (tr (lookup_request env hostname) (world s)))) of
         Rejected \<Rightarrow> Inr False | Resolved r2 \<Rightarrow> Inr (ok r2),
       \<lparr>world = snd (tr (delete_request env ident)
                       (snd (tr (lookup_request env hostname) (world s)))),
        calls = calls s @ [lookup_request env hostname, delete_request env ident]\<rparr>)"
    by (simp add: deleteCustomHostname_eq [OF assms] i own_property_def)
  show "fst (deleteCustomHostname tr env hostname s) = Inr True \<longleftrightarrow>
          (\<exists>r2. fst (tr (delete_request env ident)
                        (snd (tr (lookup_request env hostname) (world s)))) = Resolved r2 \<and>
                ok r2)"
    by (simp add: eq split: fetch_outcome.splits)
  show "fst (deleteCustomHostname tr env hostname s) = Inr True \<or>
        fst (deleteCustomHostname tr env hostname s) = Inr False"
    by (simp add: eq split: fetch_outcome.splits)
  show "calls (snd (deleteCustomHostname tr env hostname s)) =
          calls s @ [lookup_request env hostname, delete_request env ident]"
    by (simp add: eq)
  show "req_method (delete_request env ident) = DELETE"
    by (simp add: delete_request_def)
next
  assume "fst (deleteCustomHostname tr env hostname s) = Inr True"
  then show "\<exists>r v i r2.
               fst (tr (lookup_request env hostname) (world s)) = Resolved r \<and> ok r \<and>
               json r = Some v \<and> truthy (prop_of v ''result'') \<and>
               prop_of (prop_of v ''result'') ''length'' \<noteq> Num 0 \<and>
               hostname_id v = Inr i \<and>
               fst (tr (delete_request env i)
                      (snd (tr (lookup_request env hostname) (world s)))) = Resolved r2 \<and>
               ok r2"
    by (auto simp: deleteCustomHostname_eq [OF assms]
          split: fetch_outcome.splits option.splits sum.splits if_splits)
qed

theorem deleteCustomHostname_true_iff_witness:
  "fst (deleteCustomHostname
          (answer_with (Resolved \<lparr>ok = True, json = Some (Obj [(''result'', Arr [])])\<rparr>))
          env0 ''a.example'' s0) = Inr False \<and>
   calls (snd (deleteCustomHostname
          (answer_with (Resolved \<lparr>ok = True, json = Some (Obj [(''result'', Arr [])])\<rparr>))
          env0 ''a.example'' s0)) = [lookup_request env0 ''a.example''] \<and>
   fst (deleteCustomHostname
          (answer_with (Resolved \<lparr>ok = True, json = Some pending_body\<rparr>))
          env0 ''a.example'' s0) = Inr True \<and>
   calls (snd (deleteCustomHostname
          (answer_with (Resolved \<lparr>ok = True, json = Some pending_body\<rparr>))
          env0 ''a.example'' s0)) =
     [lookup_request env0 ''a.example'', delete_request env0 ''x''] \<and>
   fst (deleteCustomHostname
          (answer_by_method (Resolved \<lparr>ok = True, json = Some pending_body\<rparr>) Rejected)
          env0 ''a.example'' s0) = Inr False"
  using deleteCustomHostname_true_iff
      [of env0 "answer_with (Resolved \<lparr>ok = True, json = Some (Obj [(''result'', Arr [])])\<rparr>)"
          "''a.example''" s0]
    deleteCustomHostname_true_iff
      [of env0 "answer_with (Resolved \<lparr>ok = True, json = Some pending_body\<rparr>)"
          "''a.example''" s0]
    deleteCustomHostname_true_iff
      [of env0 "answer_by_method (Resolved \<lparr>ok = True, json = Some pending_body\<rparr>) Rejected"
          "''a.example''" s0]
  by (simp add: example_inputs answer_by_method_def pending_body_def delete_evaluation)

text \<open>
  C5 as stated fails: with two records in the lookup result the first one is deleted and
  the result is \<open>true\<close>.
\<close>

theorem delete_with_two_records_counterexample:
  "prop_of (prop_of two_records_body ''result'') ''length'' = Num 2 \<and>
   fst (deleteCustomHostname
          (answer_with (Resolved \<lparr>ok = True, json = Some two_records_body\<rparr>))
          env0 ''a.example'' s0) = Inr True \<and>
   calls (snd (deleteCustomHostname
          (answer_with (Resolved \<lparr>ok = True, json = Some two_records_body\<rparr>))
          env0 ''a.example'' s0)) =
     [lookup_request env0 ''a.example'', delete_request env0 ''a1'']"
  by (simp add: example_inputs two_records_body_def delete_evaluation)

text \<open>
  C6. For a configured client and a success response whose \<open>result\<close> list is not
  empty, the first record is projected: \<open>status\<close> is copied as it is; \<open>ssl\<close> is a
  sub-object exactly when the record's \<open>ssl\<close> is truthy (an object always is, an
  absent field never), holding the remote \<open>status\<close>, the \<open>method\<close> field or else
  the \<open>validation_method\<close> field as \<open>validation_method\<close>, and the two
  validation sequences, empty when absent; \<open>verification_errors\<close> is empty when
  absent. The witness is the example of the specification.
\<close>

theorem status_projects_first_record:
  assumes "isApiConfigured env"
    and "fst (tr (lookup_request env hostname) (world s)) = Resolved r"
    and "ok r"
    and "json r = Some (Obj members)"
    and "map_of members ''result'' = Some (Arr (d # others))"
    and "d \<noteq> Null" and "d \<noteq> Undefined"
  shows "fst (getCustomHostnameStatus tr env hostname s) =
           Inr (Obj [(''status'', prop_of d ''status''),
                     (''ssl'',
                        if truthy (prop_of d ''ssl'') then
                          Obj [(''status'', prop_of (prop_of d ''ssl'') ''status''),
                               (''validation_method'',
                                  if truthy (prop_of (prop_of d ''ssl'') ''method'')
                                  then prop_of (prop_of d ''ssl'') ''method''
                                  else prop_of (prop_of d ''ssl'') ''validation_method''),
                               (''validation_errors'',
                                  if truthy (prop_of (prop_of d ''ssl'') ''validation_errors'')
                                  then prop_of (prop_of d ''ssl'') ''validation_errors''
                                  else Arr []),
                               (''validation_records'',
                                  if truthy (prop_of (prop_of d ''ssl'') ''validation_records'')
                                  then prop_of (prop_of d ''ssl'') ''validation_records''
                                  else Arr [])]
                        else Undefined),
                     (''verification_errors'',
                        if truthy (prop_of d ''verification_errors'')
                        then prop_of d ''verification_errors'' else Arr [])])"
proof -
  have res: "own_property members ''result'' = Arr (d # others)"
    using assms(5) by (simp add: own_property_def)
  have "fst (getCustomHostnameStatus tr env hostname s) = project_record d"
    using assms(6,7)
    by (simp add: getCustomHostnameStatus_ok [of env tr hostname s r "Obj members", OF assms(1,2,4,3)] res prop_of_Arr_0)
  then show ?thesis
    using assms(6,7) by (simp add: project_record_eq js_or_def)
qed

theorem status_projects_first_record_witness:
  "fst (getCustomHostnameStatus (answer_with (Resolved \<lparr>ok = True, json = Some pending_body\<rparr>))
          env0 ''a.example'' s0) =
     Inr (Obj [(''status'', Str ''pending''),
               (''ssl'', Obj [(''status'', Str ''pending_validation''),
                              (''validation_method'', Str ''http''),
                              (''validation_errors'', Arr []),
                              (''validation_records'', Arr [])]),
               (''verification_errors'', Arr [])])"
  using status_projects_first_record
    [of env0 "answer_with (Resolved \<lparr>ok = True, json = Some pending_body\<rparr>)" "''a.example''" s0
        "\<lparr>ok = True, json = Some pending_body\<rparr>"
        "[(''result'',
           Arr [Obj [(''id'', Str ''x''),
                     (''status'', Str ''pending''),
                     (''ssl'', Obj [(''status'', Str ''pending_validation''),
                                    (''method'', Str ''http'')])]])]"
        "Obj [(''id'', Str ''x''),
                     (''status'', Str ''pending''),
                     (''ssl'', Obj [(''status'', Str ''pending_validation''),
                                    (''method'', Str ''http'')])]" "[]"]
  by (simp add: example_inputs pending_body_def own_property_def)

text \<open>
  C7. For a configured client and a success response whose body is an object with an
  empty \<open>result\<close> list or without a \<open>result\<close> field, the status lookup returns the
  object whose only entry is \<open>status: not_found\<close>.
\<close>

theorem status_not_found_on_empty_result:
  assumes "isApiConfigured env"
    and "fst (tr (lookup_request env hostname) (world s)) = Resolved r"
    and "ok r"
    and "json r = Some (Obj members)"
    and "map_of members ''result'' = Some (Arr []) \<or> map_of members ''result'' = None"
  shows "fst (getCustomHostnameStatus tr env hostname s) = Inr (Obj [(''status'', Str ''not_found'')])"
proof -
  have "\<not> truthy (prop_of (Obj members) ''result'') \<or>
        prop_of (prop_of (Obj members) ''result'') ''length'' = Num 0"
    using assms(5) by (auto simp: own_property_def)
  then show ?thesis
    by (auto simp: getCustomHostnameStatus_ok [of env tr hostname s r "Obj members", OF assms(1,2,4,3)] status_not_found_def)
qed

theorem status_not_found_on_empty_result_witness:
  "fst (getCustomHostnameStatus
          (answer_with (Resolved \<lparr>ok = True, json = Some (Obj [(''result'', Arr [])])\<rparr>))
          env0 ''a.example'' s0) = Inr (Obj [(''status'', Str ''not_found'')]) \<and>
   fst (getCustomHostnameStatus
          (answer_with (Resolved \<lparr>ok = True, json = Some (Obj [(''success'', Bool True)])\<rparr>))
          env0 ''a.example'' s0) = Inr (Obj [(''status'', Str ''not_found'')])"
  using status_not_found_on_empty_result
    [of env0 "answer_with (Resolved \<lparr>ok = True, json = Some (Obj [(''result'', Arr [])])\<rparr>)"
        "''a.example''" s0 "\<lparr>ok = True, json = Some (Obj [(''result'', Arr [])])\<rparr>"
        "[(''result'', Arr [])]"]
    status_not_found_on_empty_result
    [of env0 "answer_with (Resolved \<lparr>ok = True, json = Some (Obj [(''success'', Bool True)])\<rparr>)"
        "''a.example''" s0 "\<lparr>ok = True, json = Some (Obj [(''success'', Bool True)])\<rparr>"
        "[(''success'', Bool True)]"]
  by (simp add: example_inputs)

text \<open>
  C8, as amended. The headers depend on the token alone: a non-empty token gives exactly
  \<open>Authorization: Bearer <token>\<close> and \<open>Content-Type: application/json\<close>, whatever
  the zone identifier is; an empty or absent token gives no header. A configured client
  therefore always gets the two headers.
\<close>

theorem getAuthHeaders_by_token:
  "(\<forall>t. DISPATCH_NAMESPACE_API_TOKEN env = Some t \<and> t \<noteq> [] \<longrightarrow>
       getAuthHeaders env =
         [(''Authorization'', ''Bearer '' @ t), (''Content-Type'', ''application/json'')]) \<and>
   (DISPATCH_NAMESPACE_API_TOKEN env = None \<or> DISPATCH_NAMESPACE_API_TOKEN env = Some [] \<longrightarrow>
       getAuthHeaders env = []) \<and>
   (isApiConfigured env \<longrightarrow> getAuthHeaders env \<noteq> [])"
  by (auto simp: getAuthHeaders_def isApiConfigured_def present_def interpolate_def
           split: option.splits)

theorem getAuthHeaders_by_token_witness:
  "getAuthHeaders env0 = [(''Authorization'', ''Bearer t0k''), (''Content-Type'', ''application/json'')] \<and>
   getAuthHeaders \<lparr>CLOUDFLARE_ZONE_ID = Some ''z1'', DISPATCH_NAMESPACE_API_TOKEN = None\<rparr> = []"
  using getAuthHeaders_by_token [of env0]
    getAuthHeaders_by_token [of "\<lparr>CLOUDFLARE_ZONE_ID = Some ''z1'', DISPATCH_NAMESPACE_API_TOKEN = None\<rparr>"]
  by (simp add: env0_def)

text \<open>
  C8 as stated fails: with a token and no zone identifier the client is not configured,
  and the header set is not empty.
\<close>

theorem getAuthHeaders_unconfigured_counterexample:
  "\<not> isApiConfigured token_only \<and>
   getAuthHeaders token_only =
     [(''Authorization'', ''Bearer t0k''), (''Content-Type'', ''application/json'')] \<and>
   getAuthHeaders token_only \<noteq> []"
  by (simp add: token_only_def isApiConfigured_def getAuthHeaders_def present_def interpolate_def)

text \<open>
  C9, as amended. The status lookup always returns a value, and that value either is the
  projection of the first remote record of a success response, or is one of four values
  made locally (\<open>not_found\<close> and the three errors), none of which has an \<open>ssl\<close>
  entry.
\<close>

theorem status_without_record_has_no_ssl:
  "\<exists>v. fst (getCustomHostnameStatus tr env hostname s) = Inr v \<and>
       ((\<exists>r body d. isApiConfigured env \<and>
            fst (tr (lookup_request env hostname) (world s)) = Resolved r \<and> ok r \<and>
            json r = Some body \<and> d = prop_of (prop_of body ''result'') ''0'' \<and>
            d \<noteq> Null \<and> d \<noteq> Undefined \<and> project_record d = Inr v) \<or>
        ((v = Obj [(''status'', Str ''not_found'')] \<or>
          v = Obj [(''status'', Str ''error''),
                   (''verification_errors'', Arr [Str ''API not configured''])] \<or>
          v = Obj [(''status'', Str ''error''),
                   (''verification_errors'', Arr [Str ''Network error''])] \<or>
          v = Obj [(''status'', Str ''error''),
                   (''verification_errors'', Arr [Str ''API request failed''])]) \<and>
         \<not> has_key v ''ssl'' \<and> prop_of v ''ssl'' = Undefined))"
proof (cases "isApiConfigured env")
  case False
  then show ?thesis
    by (simp add: getCustomHostnameStatus_def status_error_def has_key_def own_property_def)
next
  case True
  show ?thesis
  proof (cases "fst (tr (lookup_request env hostname) (world s))")
    case Rejected
    with True show ?thesis
      by (simp add: getCustomHostnameStatus_rejected status_error_def has_key_def
            own_property_def)
  next
    case (Resolved r)
    show ?thesis
    proof (cases "json r")
      case None
      with True Resolved show ?thesis
        by (simp add: getCustomHostnameStatus_unreadable status_error_def has_key_def
              own_property_def)
    next
      case (Some body)
      show ?thesis
      proof (cases "ok r")
        case False
        with True Resolved Some show ?thesis
          by (simp add: getCustomHostnameStatus_not_ok status_error_def has_key_def
                own_property_def)
      next
        case ok: True
        note res = getCustomHostnameStatus_ok [of env tr hostname s r body, OF True Resolved Some ok]
        show ?thesis
        proof (cases "body = Undefined \<or> body = Null \<or>
                      \<not> truthy (prop_of body ''result'') \<or>
                      prop_of (prop_of body ''result'') ''length'' = Num 0 \<or>
                      prop_of (prop_of body ''result'') ''0'' = Undefined \<or>
                      prop_of (prop_of body ''result'') ''0'' = Null")
          case True
          then show ?thesis
            unfolding res
            by (auto simp: status_error_def status_not_found_def has_key_def own_property_def)
        next
          case False
          then have "fst (getCustomHostnameStatus tr env hostname s) =
                       project_record (prop_of (prop_of body ''result'') ''0'')"
            unfolding res by simp
          moreover from False obtain v
            where "project_record (prop_of (prop_of body ''result'') ''0'') = Inr v"
            by (auto simp: project_record_eq)
          ultimately show ?thesis
            using \<open>isApiConfigured env\<close> Resolved Some ok False by auto
        qed
      qed
    qed
  qed
qed

theorem status_without_record_has_no_ssl_witness:
  "fst (getCustomHostnameStatus
          (answer_with (Resolved \<lparr>ok = True, json = Some (Obj [(''result'', Arr [])])\<rparr>))
          env0 ''a.example'' s0) = Inr (Obj [(''status'', Str ''not_found'')]) \<and>
   \<not> has_key (Obj [(''status'', Str ''not_found'')]) ''ssl''"
  using status_without_record_has_no_ssl
    [of "answer_with (Resolved \<lparr>ok = True, json = Some (Obj [(''result'', Arr [])])\<rparr>)"
        env0 "''a.example''" s0]
  by (simp add: example_inputs own_property_def has_key_def getCustomHostnameStatus_def
        getCustomHostnameStatus_try_def fetch_def response_json_def no_result_def get_def
        status_not_found_def)

text \<open>
  C9 as stated fails: the remote status is copied unchecked, so a record that says
  \<open>not_found\<close> and has an \<open>ssl\<close> object is returned with both.
\<close>

theorem remote_not_found_with_ssl_counterexample:
  "fst (getCustomHostnameStatus
          (answer_with (Resolved \<lparr>ok = True, json = Some stray_not_found_body\<rparr>))
          env0 ''a.example'' s0) = Inr stray_not_found_status \<and>
   prop_of stray_not_found_status ''status'' = Str ''not_found'' \<and>
   has_key stray_not_found_status ''ssl'' \<and>
   prop_of stray_not_found_status ''ssl'' =
     Obj [(''status'', Str ''active''),
          (''validation_method'', Undefined),
          (''validation_errors'', Arr []),
          (''validation_records'', Arr [])]"
  by (simp add: example_inputs stray_not_found_body_def stray_not_found_status_def
        getCustomHostnameStatus_def getCustomHostnameStatus_try_def fetch_def
        response_json_def no_result_def first_result_def project_record_def project_ssl_def
        and_then_def get_def js_or_def own_property_def has_key_def)

text \<open>
  C10. A configured client opens both the status lookup and the deletion with the same
  request, whose URL is the fixed prefix followed by the hostname as the caller gave it,
  with nothing escaped. For a hostname that contains \<open>&\<close> or \<open>#\<close> this is not the
  URL of a lookup filtered by that hostname, which carries the encoded hostname, and the
  value that the query of the issued URL gives to \<open>hostname\<close> is not the hostname.
\<close>

theorem lookup_url_is_verbatim:
  assumes "isApiConfigured env"
  shows "calls (snd (getCustomHostnameStatus tr env hostname s)) =
           calls s @ [lookup_request env hostname] \<and>
         (\<exists>rest. calls (snd (deleteCustomHostname tr env hostname s)) =
                 calls s @ lookup_request env hostname # rest) \<and>
         (\<forall>zone. CLOUDFLARE_ZONE_ID env = Some zone \<longrightarrow>
            url (lookup_request env hostname) =
              ''https://api.cloudflare.com/client/v4/zones/'' @ zone @
              ''/custom_hostnames?hostname='' @ hostname) \<and>
         (CHR ''&'' \<in> set hostname \<or> CHR ''#'' \<in> set hostname \<longrightarrow>
            url (lookup_request env hostname) \<noteq>
              lookup_prefix env @ encodeURIComponent hostname \<and>
            query_value hostname \<noteq> hostname)"
proof (intro conjI allI impI)
  show "calls (snd (getCustomHostnameStatus tr env hostname s)) =
          calls s @ [lookup_request env hostname]"
    using assms by (simp add: getCustomHostnameStatus_calls)
  show "\<exists>rest. calls (snd (deleteCustomHostname tr env hostname s)) =
                calls s @ lookup_request env hostname # rest"
    using assms by (rule deleteCustomHostname_first_call)
next
  fix zone
  assume "CLOUDFLARE_ZONE_ID env = Some zone"
  then show "url (lookup_request env hostname) =
               ''https://api.cloudflare.com/client/v4/zones/'' @ zone @
               ''/custom_hostnames?hostname='' @ hostname"
    by (simp add: lookup_request_def lookup_prefix_def collection_url_def interpolate_def)
next
  assume meta: "CHR ''&'' \<in> set hostname \<or> CHR ''#'' \<in> set hostname"
  show "url (lookup_request env hostname) \<noteq> lookup_prefix env @ encodeURIComponent hostname"
  proof
    assume "url (lookup_request env hostname) = lookup_prefix env @ encodeURIComponent hostname"
    then have "hostname = encodeURIComponent hostname"
      by (simp add: lookup_request_def)
    with meta have "CHR ''&'' \<in> set (encodeURIComponent hostname) \<or>
                    CHR ''#'' \<in> set (encodeURIComponent hostname)"
      by simp
    then show False
      by (auto dest: encodeURIComponent_plain)
  qed
  from query_value_shorter [OF meta] show "query_value hostname \<noteq> hostname"
    by auto
qed

theorem lookup_url_is_verbatim_witness:
  "url (lookup_request env0 ''a.example&x=1'') =
     ''https://api.cloudflare.com/client/v4/zones/z1/custom_hostnames?hostname=a.example&x=1'' \<and>
   lookup_prefix env0 @ encodeURIComponent ''a.example&x=1'' =
     ''https://api.cloudflare.com/client/v4/zones/z1/custom_hostnames?hostname=a.example%26x%3D1'' \<and>
   url (lookup_request env0 ''a.example&x=1'') \<noteq>
     lookup_prefix env0 @ encodeURIComponent ''a.example&x=1'' \<and>
   query_value ''a.example&x=1'' = ''a.example'' \<and>
   query_value ''a.example&x=1'' \<noteq> ''a.example&x=1'' \<and>
   calls (snd (getCustomHostnameStatus (answer_with Rejected) env0 ''a.example&x=1'' s0)) =
     [lookup_request env0 ''a.example&x=1'']"
proof -
  have conf: "isApiConfigured env0"
    by (simp add: env0_def isApiConfigured_def present_def)
  have zone: "CLOUDFLARE_ZONE_ID env0 = Some ''z1''"
    by (simp add: env0_def)
  have meta: "CHR ''&'' \<in> set ''a.example&x=1'' \<or> CHR ''#'' \<in> set ''a.example&x=1''"
    by simp
  have enc: "encodeURIComponent ''a.example&x=1'' = ''a.example%26x%3D1''"
    by code_simp
  have prefix: "lookup_prefix env0 =
                  ''https://api.cloudflare.com/client/v4/zones/z1/custom_hostnames?hostname=''"
    by (simp add: lookup_prefix_def collection_url_def interpolate_def zone)
  have val: "query_value ''a.example&x=1'' = ''a.example''"
    by code_simp
  from lookup_url_is_verbatim [OF conf, of "answer_with Rejected" "''a.example&x=1''" s0]
  show ?thesis
    using zone meta by (simp add: enc prefix val s0_def)
qed

end
